theory Spec2Isabelle
  imports Main
begin

section \<open>Python values seen by the encoder\<close>

text \<open>
  A Python \<open>str\<close> is a sequence of Unicode code points; a code point is a natural
  number. \<open>ascii\<close> reads a literal of the source.
\<close>

type_synonym pystr = "nat list"

definition ascii :: "string \<Rightarrow> pystr" where
  "ascii s = map of_char s"

text \<open>
  Exceptions raised while encoding. \<open>except TypeError\<close> catches the first
  constructor only; \<open>except Exception\<close> catches every class derived from
  \<open>Exception\<close>, which leaves out \<open>KeyboardInterrupt\<close>, \<open>SystemExit\<close> and
  \<open>GeneratorExit\<close> (derived from \<open>BaseException\<close> alone).
\<close>

datatype pyexc =
    TypeError pystr
  | AttributeError pystr
  | RecursionError
  | OtherException pystr
  | NonException pystr

fun is_TypeError :: "pyexc \<Rightarrow> bool" where
  "is_TypeError (TypeError _) = True"
| "is_TypeError _ = False"

fun is_Exception :: "pyexc \<Rightarrow> bool" where
  "is_Exception (NonException _) = False"
| "is_Exception _ = True"

text \<open>
  Where the class of an object stands in the class hierarchy, as far as the tests of
  \<open>JsonEncoder.default\<close> can tell:
  \<^item> \<open>Date\<close>, \<open>Datetime\<close>, \<open>Time\<close>: an instance of \<open>datetime.date\<close>,
    \<open>datetime.datetime\<close>, \<open>datetime.time\<close> or of a subclass;
  \<^item> \<open>Traceback\<close>: a traceback object;
  \<^item> \<open>ExactException\<close>: \<open>type(o) == Exception\<close>;
  \<^item> \<open>SubException\<close>: an instance of a proper subclass of \<open>Exception\<close>;
  \<^item> \<open>BaseExceptionOnly\<close>: an exception instance outside \<open>Exception\<close>
    (\<open>KeyboardInterrupt()\<close>, \<open>SystemExit()\<close>);
  \<^item> \<open>PlainClass\<close>: a class whose metaclass is \<open>type\<close> itself
    (\<open>type(o) == type\<close>), such as \<open>Exception\<close>, \<open>int\<close> or \<open>type\<close>;
  \<^item> \<open>MetaClass\<close>: a class whose metaclass is a proper subclass of \<open>type\<close>
    (an abstract base class, an \<open>Enum\<close> class);
  \<^item> \<open>Opaque\<close>: any other object the JSON library has no native rendering for.
\<close>

datatype pykind =
    Date | Datetime | Time
  | Traceback
  | ExactException | SubException | BaseExceptionOnly
  | PlainClass | MetaClass
  | Opaque

text \<open>
  An object, by what the encoder observes of it: its kind, the name of its class, and
  the outcome of the three conversions the encoder may call on it. \<open>o.isoformat()\<close>
  and \<open>str(o)\<close> run code of the object's class and may raise.
\<close>

record pyobj =
  kind :: pykind
  class_name :: pystr
  isoformat :: "pyexc + pystr"
  format_tb :: "pystr list"
  str :: "pyexc + pystr"

text \<open>
  The values of a log record: what the JSON library renders natively, and objects.
  Mappings have text keys. Floats are left out: the library renders them itself and
  they never reach the fallback hook.
\<close>

datatype pyval =
    PNone
  | PBool bool
  | PInt int
  | PStr pystr
  | PList "pyval list"
  | PDict "(pystr \<times> pyval) list"
  | PObj pyobj

type_synonym hook = "pyobj \<Rightarrow> pyexc + pyval"

section \<open>JsonEncoder\<close>

definition isinstance_temporal :: "pyobj \<Rightarrow> bool" where
  "isinstance_temporal ob = (kind ob \<in> {Date, Datetime, Time})"

definition istraceback :: "pyobj \<Rightarrow> bool" where
  "istraceback ob = (kind ob = Traceback)"

definition type_is_Exception :: "pyobj \<Rightarrow> bool" where
  "type_is_Exception ob = (kind ob = ExactException)"

definition isinstance_Exception :: "pyobj \<Rightarrow> bool" where
  "isinstance_Exception ob = (kind ob \<in> {ExactException, SubException})"

definition type_is_type :: "pyobj \<Rightarrow> bool" where
  "type_is_type ob = (kind ob = PlainClass)"

text \<open>\<open>str.strip()\<close> removes the characters for which \<open>str.isspace\<close> holds.\<close>

definition py_isspace :: "nat \<Rightarrow> bool" where
  "py_isspace c = (c \<in> {0x09, 0x0A, 0x0B, 0x0C, 0x0D, 0x1C, 0x1D, 0x1E, 0x1F, 0x20,
     0x85, 0xA0, 0x1680, 0x2028, 0x2029, 0x202F, 0x205F, 0x3000}
     \<or> (0x2000 \<le> c \<and> c \<le> 0x200A))"

definition strip :: "pystr \<Rightarrow> pystr" where
  "strip s = rev (dropWhile py_isspace (rev (dropWhile py_isspace s)))"

text \<open>
  \<open>self\<close>: the two methods \<open>default\<close> reaches through it. \<open>format_datetime_obj\<close>
  is looked up on the instance, so a subclass may replace it; \<open>super().default\<close> is the
  next \<open>default\<close> after \<open>JsonEncoder\<close> in the method resolution order.
\<close>

record encoder_self =
  self_format_datetime_obj :: hook
  super_default :: hook

definition format_datetime_obj :: hook where
  "format_datetime_obj ob = map_sum id PStr (isoformat ob)"

text \<open>\<open>json.JSONEncoder.default\<close> of the standard library always raises.\<close>

definition JSONEncoder_default :: hook where
  "JSONEncoder_default ob =
     Inl (TypeError (ascii ''Object of type '' @ class_name ob
                     @ ascii '' is not JSON serializable''))"

definition JsonEncoder_default :: "encoder_self \<Rightarrow> hook" where
  "JsonEncoder_default self ob =
     (if isinstance_temporal ob then self_format_datetime_obj self ob
      else if istraceback ob then Inr (PStr (strip (concat (format_tb ob))))
      else if type_is_Exception ob \<or> isinstance_Exception ob \<or> type_is_type ob
        then map_sum id PStr (str ob)
      else (case super_default self ob of
              Inr v \<Rightarrow> Inr v
            | Inl e \<Rightarrow>
                if is_TypeError e then
                  (case str ob of
                     Inr s \<Rightarrow> Inr (PStr s)
                   | Inl e' \<Rightarrow> if is_Exception e' then Inr PNone else Inl e')
                else Inl e))"

text \<open>
  \<open>self\<close> for an instance of \<open>JsonEncoder\<close> itself, and the class as the JSON
  library sees it: a subclass of \<open>json.JSONEncoder\<close>, told from the others by its
  \<open>default\<close> method.
\<close>

definition JsonEncoder_self :: encoder_self where
  "JsonEncoder_self = \<lparr>self_format_datetime_obj = format_datetime_obj,
                       super_default = JSONEncoder_default\<rparr>"



section \<open>The standard library's \<open>json.dumps\<close>\<close>


definition hex_digit :: "nat \<Rightarrow> nat" where
  "hex_digit d = (if d < 10 then 48 + d else 87 + d)"

text \<open>\<open>'{0:04x}'.format(n)\<close> for \<open>n < 0x10000\<close>.\<close>

definition hex4 :: "nat \<Rightarrow> pystr" where
  "hex4 n = [hex_digit (n div 4096 mod 16), hex_digit (n div 256 mod 16),
             hex_digit (n div 16 mod 16), hex_digit (n mod 16)]"

definition u_escape :: "nat \<Rightarrow> pystr" where
  "u_escape n = [92, 117] @ hex4 n"

text \<open>
  \<open>ESCAPE_DCT\<close>: the short escapes of backslash, double quote, backspace, form feed,
  newline, carriage return and tab, and a \<open>u\<close> escape for the other control characters.
\<close>

definition ESCAPE_DCT :: "nat \<Rightarrow> pystr option" where
  "ESCAPE_DCT c =
     (if c = 92 then Some [92, 92]
      else if c = 34 then Some [92, 34]
      else if c = 8 then Some [92, 98]
      else if c = 12 then Some [92, 102]
      else if c = 10 then Some [92, 110]
      else if c = 13 then Some [92, 114]
      else if c = 9 then Some [92, 116]
      else if c < 32 then Some (u_escape c)
      else None)"

text \<open>
  \<open>py_encode_basestring_ascii\<close>: every character outside the range from space to
  tilde, and backslash and double quote, is replaced; a code point from \<open>0x10000\<close> on
  becomes a surrogate pair (\<open>0xd800 | ((n >> 10) & 0x3ff)\<close> and
  \<open>0xdc00 | (n & 0x3ff)\<close> for \<open>n\<close> the code point less \<open>0x10000\<close>).
\<close>

definition replace_ascii :: "nat \<Rightarrow> pystr" where
  "replace_ascii c =
     (if c = 92 \<or> c = 34 \<or> c < 32 \<or> 126 < c then
        (case ESCAPE_DCT c of
           Some e \<Rightarrow> e
         | None \<Rightarrow>
             if c < 0x10000 then u_escape c
             else u_escape (0xd800 + ((c - 0x10000) div 1024) mod 1024)
                  @ u_escape (0xdc00 + (c - 0x10000) mod 1024))
      else [c])"

definition py_encode_basestring_ascii :: "pystr \<Rightarrow> pystr" where
  "py_encode_basestring_ascii s = [34] @ concat (map replace_ascii s) @ [34]"

text \<open>
  \<open>py_encode_basestring\<close>: only backslash, double quote and the control characters
  are replaced.
\<close>

definition replace_plain :: "nat \<Rightarrow> pystr" where
  "replace_plain c = (case ESCAPE_DCT c of Some e \<Rightarrow> e | None \<Rightarrow> [c])"

definition py_encode_basestring :: "pystr \<Rightarrow> pystr" where
  "py_encode_basestring s = [34] @ concat (map replace_plain s) @ [34]"

text \<open>\<open>int.__repr__\<close>: decimal digits, a minus sign for a negative number.\<close>

fun nat_repr :: "nat \<Rightarrow> pystr" where
  "nat_repr n = (if n < 10 then [48 + n] else nat_repr (n div 10) @ [48 + n mod 10])"

definition int_repr :: "int \<Rightarrow> pystr" where
  "int_repr i = (if i < 0 then 45 # nat_repr (nat (- i)) else nat_repr (nat i))"

text \<open>\<open>sep.join(xs)\<close>.\<close>

fun join :: "pystr \<Rightarrow> pystr list \<Rightarrow> pystr" where
  "join sep [] = []"
| "join sep [x] = x"
| "join sep (x # y # ys) = x @ sep @ join sep (y # ys)"

text \<open>The first exception raised while the items are rendered in order, or all the renderings.\<close>

fun collect :: "(pyexc + 'a) list \<Rightarrow> pyexc + 'a list" where
  "collect [] = Inr []"
| "collect (Inl e # rs) = Inl e"
| "collect (Inr x # rs) = (case collect rs of Inl e \<Rightarrow> Inl e | Inr xs \<Rightarrow> Inr (x # xs))"

text \<open>
  The encoder's settings after \<open>JSONEncoder.__init__\<close>: the fallback hook, the indent
  as a string, the item separator and the escaping flag. The key separator is a colon
  and a space.
\<close>

record encoder_cfg =
  cfg_default :: hook
  cfg_indent :: "pystr option"
  cfg_item_separator :: pystr
  cfg_ensure_ascii :: bool

definition encoder :: "encoder_cfg \<Rightarrow> pystr \<Rightarrow> pystr" where
  "encoder cfg s =
     (if cfg_ensure_ascii cfg then py_encode_basestring_ascii s else py_encode_basestring s)"

text \<open>
  The text of a non-empty list or mapping at nesting level \<open>lvl\<close>, from its brackets
  and its rendered items.
\<close>

definition newline_indent :: "pystr \<Rightarrow> nat \<Rightarrow> pystr" where
  "newline_indent ind lvl = 10 # concat (replicate lvl ind)"

definition container :: "encoder_cfg \<Rightarrow> nat \<Rightarrow> nat \<Rightarrow> nat \<Rightarrow> pystr list \<Rightarrow> pystr" where
  "container cfg lvl lb rb items =
     (case cfg_indent cfg of
        None \<Rightarrow> [lb] @ join (cfg_item_separator cfg) items @ [rb]
      | Some ind \<Rightarrow>
          [lb] @ newline_indent ind (Suc lvl)
          @ join (cfg_item_separator cfg @ newline_indent ind (Suc lvl)) items
          @ newline_indent ind lvl @ [rb])"

text \<open>
  \<open>_iterencode\<close>, with its chunks concatenated. The first argument is the nesting
  depth left before the interpreter's recursion limit: each list, mapping and hook
  result is rendered one level deeper.
\<close>

primrec iterencode :: "nat \<Rightarrow> encoder_cfg \<Rightarrow> nat \<Rightarrow> pyval \<Rightarrow> pyexc + pystr" where
  "iterencode 0 cfg lvl v = Inl RecursionError"
| "iterencode (Suc n) cfg lvl v =
     (case v of
        PStr s \<Rightarrow> Inr (encoder cfg s)
      | PNone \<Rightarrow> Inr (ascii ''null'')
      | PBool b \<Rightarrow> Inr (if b then ascii ''true'' else ascii ''false'')
      | PInt i \<Rightarrow> Inr (int_repr i)
      | PList xs \<Rightarrow>
          (if xs = [] then Inr (ascii ''[]'')
           else map_sum id (container cfg lvl 91 93)
                  (collect (map (iterencode n cfg (Suc lvl)) xs)))
      | PDict kvs \<Rightarrow>
          (if kvs = [] then Inr (ascii ''{}'')
           else map_sum id (container cfg lvl 123 125)
                  (collect (map (\<lambda>(k, x). map_sum id (\<lambda>s. encoder cfg k @ ascii '': '' @ s)
                                             (iterencode n cfg (Suc lvl) x)) kvs)))
      | PObj ob \<Rightarrow>
          (case cfg_default cfg ob of
             Inl e \<Rightarrow> Inl e
           | Inr v' \<Rightarrow> iterencode n cfg lvl v'))"




section \<open>The standard library's \<open>json.loads\<close>\<close>






















section \<open>JsonFormatter\<close>










section \<open>Deprecated compatibility\<close>

text \<open>
  The module's \<open>__getattr__\<close>. \<open>warnings.warn\<close> adds the warning to those emitted so
  far; \<open>core.RESERVED_ATTRS\<close> and the module's \<open>__name__\<close> are parameters.
\<close>

datatype warning = DeprecationWarning pystr

definition module_getattr ::
  "'a \<Rightarrow> pystr \<Rightarrow> pystr \<Rightarrow> warning list \<Rightarrow> (pyexc + 'a) \<times> warning list" where
  "module_getattr core_RESERVED_ATTRS module_name name emitted =
     (if name = ascii ''RESERVED_ATTRS'' then
        (Inr core_RESERVED_ATTRS,
         emitted @ [DeprecationWarning
                      (ascii ''RESERVED_ATTRS has been moved to pythonjsonlogger.core'')])
      else
        (Inl (AttributeError (ascii ''module '' @ module_name
                              @ ascii '' has no attribute '' @ name)),
         emitted))"

section \<open>Records that serialize\<close>





section \<open>Encoding in two steps\<close>


fun render :: "encoder_cfg \<Rightarrow> nat \<Rightarrow> pyval \<Rightarrow> pystr" where
  "render cfg lvl (PStr s) = encoder cfg s"
| "render cfg lvl PNone = ascii ''null''"
| "render cfg lvl (PBool b) = (if b then ascii ''true'' else ascii ''false'')"
| "render cfg lvl (PInt i) = int_repr i"
| "render cfg lvl (PList xs) =
     (if xs = [] then ascii ''[]''
      else container cfg lvl 91 93 (map (render cfg (Suc lvl)) xs))"
| "render cfg lvl (PDict kvs) =
     (if kvs = [] then ascii ''{}''
      else container cfg lvl 123 125
             (map (\<lambda>kv. encoder cfg (fst kv) @ ascii '': '' @ render cfg (Suc lvl) (snd kv)) kvs))"
| "render cfg lvl (PObj ob) = []"










section \<open>The resolution rules as a dispatch table\<close>

text \<open>
  The specification describes the fallback as an ordered sequence of predicate and
  handler pairs, tried in a fixed order, each giving either a result or "not
  applicable, try next" (\<open>None\<close> here). The five rules below follow its wording;
  \<open>first_match\<close> tries them in order.
\<close>

type_synonym rule = "pyobj \<Rightarrow> (pyexc + pyval) option"

definition temporal_rule :: "encoder_self \<Rightarrow> rule" where
  "temporal_rule self ob =
     (if isinstance_temporal ob then Some (self_format_datetime_obj self ob) else None)"

definition traceback_rule :: rule where
  "traceback_rule ob =
     (if istraceback ob then Some (Inr (PStr (strip (concat (format_tb ob))))) else None)"

definition exception_rule :: rule where
  "exception_rule ob =
     (if type_is_Exception ob \<or> isinstance_Exception ob \<or> type_is_type ob
      then Some (map_sum id PStr (str ob)) else None)"

definition delegate_rule :: "encoder_self \<Rightarrow> rule" where
  "delegate_rule self ob =
     (case super_default self ob of
        Inr v \<Rightarrow> Some (Inr v)
      | Inl e \<Rightarrow> if is_TypeError e then None else Some (Inl e))"

definition stringify_or_null_rule :: rule where
  "stringify_or_null_rule ob =
     Some (case str ob of
             Inr s \<Rightarrow> Inr (PStr s)
           | Inl e \<Rightarrow> if is_Exception e then Inr PNone else Inl e)"

fun first_match :: "rule list \<Rightarrow> rule" where
  "first_match [] ob = None"
| "first_match (r # rs) ob = (case r ob of Some res \<Rightarrow> Some res | None \<Rightarrow> first_match rs ob)"

definition resolution_chain :: "encoder_self \<Rightarrow> rule list" where
  "resolution_chain self =
     [temporal_rule self, traceback_rule, exception_rule, delegate_rule self,
      stringify_or_null_rule]"

section \<open>Example values\<close>

definition a_datetime :: pyobj where
  "a_datetime = \<lparr>kind = Datetime, class_name = ascii ''datetime'',
                  isoformat = Inr (ascii ''2024-01-02T03:04:05''), format_tb = [],
                  str = Inr (ascii ''2024-01-02 03:04:05'')\<rparr>"

definition a_traceback :: pyobj where
  "a_traceback = \<lparr>kind = Traceback, class_name = ascii ''traceback'',
                   isoformat = Inl (AttributeError (ascii ''isoformat'')),
                   format_tb = [ascii ''  File app.py, line 3, in main'' @ [10],
                                ascii ''    run()'' @ [10]],
                   str = Inr (ascii ''<traceback object>'')\<rparr>"

definition a_value_error :: pyobj where
  "a_value_error = \<lparr>kind = SubException, class_name = ascii ''ValueError'',
                     isoformat = Inl (AttributeError (ascii ''isoformat'')), format_tb = [],
                     str = Inr (ascii ''bad input'')\<rparr>"

definition an_abstract_class :: pyobj where
  "an_abstract_class = \<lparr>kind = MetaClass, class_name = ascii ''ABCMeta'',
                     isoformat = Inl (AttributeError (ascii ''isoformat'')), format_tb = [],
                     str = Inr (ascii ''<class Mapping>'')\<rparr>"

definition a_set :: pyobj where
  "a_set = \<lparr>kind = Opaque, class_name = ascii ''set'',
             isoformat = Inl (AttributeError (ascii ''isoformat'')), format_tb = [],
             str = Inr (ascii ''{1, 2}'')\<rparr>"

definition broken_str_obj :: pyobj where
  "broken_str_obj = \<lparr>kind = Opaque, class_name = ascii ''Broken'',
             isoformat = Inl (AttributeError (ascii ''isoformat'')), format_tb = [],
             str = Inl (OtherException (ascii ''ValueError''))\<rparr>"

definition interrupted_obj :: pyobj where
  "interrupted_obj = \<lparr>kind = Opaque, class_name = ascii ''Slow'',
             isoformat = Inl (AttributeError (ascii ''isoformat'')), format_tb = [],
             str = Inl (NonException (ascii ''KeyboardInterrupt''))\<rparr>"


definition compact_cfg :: encoder_cfg where
  "compact_cfg = \<lparr>cfg_default = JsonEncoder_default JsonEncoder_self, cfg_indent = None,
                   cfg_item_separator = ascii '', '', cfg_ensure_ascii = True\<rparr>"










section \<open>Properties of the encoder\<close>

text \<open>
  Claim C2. For every value passed to the fallback hook, the rules are tried in the
  order temporal, traceback, exception or type, delegation to the underlying library,
  last-resort stringification or null, and the first rule that applies gives the
  result: \<open>JsonEncoder.default\<close> computes exactly what the ordered table computes.
\<close>

theorem default_first_match:
  "first_match (resolution_chain self) ob = Some (JsonEncoder_default self ob)"
  by (simp add: resolution_chain_def temporal_rule_def traceback_rule_def exception_rule_def
      delegate_rule_def stringify_or_null_rule_def JsonEncoder_default_def
      split: sum.split)

theorem default_first_match_witness:
  "first_match (resolution_chain JsonEncoder_self) a_value_error
     = Some (Inr (PStr (ascii ''bad input'')))"
  using default_first_match [of JsonEncoder_self a_value_error]
  by (simp add: JsonEncoder_default_def a_value_error_def isinstance_temporal_def
      istraceback_def isinstance_Exception_def)

text \<open>
  Claim C3. For a date, datetime or time value the hook returns what
  \<open>format_datetime_obj\<close> returns, which is the value's \<open>isoformat()\<close> text; an
  instance that replaces \<open>format_datetime_obj\<close> by \<open>f\<close> gets \<open>f\<close> applied to temporal
  values and the unchanged result for every other value.
\<close>

theorem temporal_isoformat:
  "(isinstance_temporal ob \<longrightarrow>
      JsonEncoder_default JsonEncoder_self ob = format_datetime_obj ob
      \<and> format_datetime_obj ob = map_sum id PStr (isoformat ob)
      \<and> (\<forall>s. isoformat ob = Inr s \<longrightarrow> JsonEncoder_default JsonEncoder_self ob = Inr (PStr s))
      \<and> JsonEncoder_default (self\<lparr>self_format_datetime_obj := f\<rparr>) ob = f ob)
   \<and> (\<not> isinstance_temporal ob \<longrightarrow>
      JsonEncoder_default (self\<lparr>self_format_datetime_obj := f\<rparr>) ob
        = JsonEncoder_default self ob)"
  by (simp add: JsonEncoder_default_def JsonEncoder_self_def format_datetime_obj_def)

theorem temporal_isoformat_witness:
  "isinstance_temporal a_datetime
   \<and> JsonEncoder_default JsonEncoder_self a_datetime = Inr (PStr (ascii ''2024-01-02T03:04:05''))
   \<and> JsonEncoder_default (JsonEncoder_self\<lparr>self_format_datetime_obj := (\<lambda>ob. Inr (PInt 0))\<rparr>)
        a_datetime = Inr (PInt 0)
   \<and> \<not> isinstance_temporal a_value_error
   \<and> JsonEncoder_default (JsonEncoder_self\<lparr>self_format_datetime_obj := (\<lambda>ob. Inr (PInt 0))\<rparr>)
        a_value_error = JsonEncoder_default JsonEncoder_self a_value_error"
  using temporal_isoformat [where ob = a_datetime and self = JsonEncoder_self
                               and f = "\<lambda>ob. Inr (PInt 0)"]
    temporal_isoformat [where ob = a_value_error and self = JsonEncoder_self
                          and f = "\<lambda>ob. Inr (PInt 0)"]
  by (simp add: a_datetime_def a_value_error_def isinstance_temporal_def)

text \<open>
  Claim C4. For a traceback object the hook returns the joined output of
  \<open>traceback.format_tb\<close> with the surrounding whitespace stripped.
\<close>

theorem traceback_formatted:
  "istraceback ob \<Longrightarrow>
     JsonEncoder_default self ob = Inr (PStr (strip (concat (format_tb ob))))"
  by (simp add: JsonEncoder_default_def istraceback_def isinstance_temporal_def)

theorem traceback_formatted_witness:
  "istraceback a_traceback
   \<and> JsonEncoder_default JsonEncoder_self a_traceback
       = Inr (PStr (ascii ''File app.py, line 3, in main'' @ [10] @ ascii ''    run()''))"
proof -
  have tb: "istraceback a_traceback"
    by (simp add: istraceback_def a_traceback_def)
  have "strip (concat (format_tb a_traceback))
          = ascii ''File app.py, line 3, in main'' @ [10] @ ascii ''    run()''"
    by (simp add: a_traceback_def strip_def py_isspace_def ascii_def)
  with tb traceback_formatted [OF tb, where self = JsonEncoder_self] show ?thesis by simp
qed

text \<open>
  Claim C5. For an exception instance, the class \<open>Exception\<close> itself or any other
  class object, the hook of \<open>JsonEncoder\<close> (or of a subclass that keeps the library's
  base \<open>default\<close>) returns the value's \<open>str()\<close> text.
\<close>

theorem exception_and_class_str:
  "kind ob \<in> {ExactException, SubException, BaseExceptionOnly, PlainClass, MetaClass} \<Longrightarrow>
   super_default self = JSONEncoder_default \<Longrightarrow>
   str ob = Inr s \<Longrightarrow>
     JsonEncoder_default self ob = Inr (PStr s)"
  by (auto simp add: JsonEncoder_default_def isinstance_temporal_def istraceback_def
      type_is_Exception_def isinstance_Exception_def type_is_type_def JSONEncoder_default_def)

theorem exception_and_class_str_witness:
  "JsonEncoder_default JsonEncoder_self a_value_error = Inr (PStr (ascii ''bad input''))
   \<and> JsonEncoder_default JsonEncoder_self an_abstract_class
       = Inr (PStr (ascii ''<class Mapping>''))"
  using
    exception_and_class_str [where ob = a_value_error and self = JsonEncoder_self
      and s = "ascii ''bad input''"]
    exception_and_class_str [where ob = an_abstract_class and self = JsonEncoder_self
      and s = "ascii ''<class Mapping>''"]
  by (simp add: a_value_error_def an_abstract_class_def JsonEncoder_self_def)

text \<open>
  Claim C6, as amended. For a value that no earlier rule takes and that the library's
  \<open>default\<close> rejects with a \<open>TypeError\<close>, the hook returns the value's \<open>str()\<close>
  text; if \<open>str()\<close> raises an exception derived from \<open>Exception\<close>, the hook returns
  \<open>None\<close> and the value is rendered as \<open>null\<close>; if \<open>str()\<close> raises an exception
  outside \<open>Exception\<close> (\<open>KeyboardInterrupt\<close>, \<open>SystemExit\<close>), that exception
  propagates.
\<close>

theorem last_resort_str_or_null:
  assumes "\<not> isinstance_temporal ob" and "\<not> istraceback ob"
    and "\<not> (type_is_Exception ob \<or> isinstance_Exception ob \<or> type_is_type ob)"
    and "super_default self ob = Inl e" and "is_TypeError e"
  shows "(\<forall>s. str ob = Inr s \<longrightarrow> JsonEncoder_default self ob = Inr (PStr s))
       \<and> (\<forall>e'. str ob = Inl e' \<and> is_Exception e' \<longrightarrow>
             JsonEncoder_default self ob = Inr PNone
             \<and> iterencode (Suc (Suc n)) (cfg\<lparr>cfg_default := JsonEncoder_default self\<rparr>) lvl (PObj ob)
                 = Inr (ascii ''null''))
       \<and> (\<forall>e'. str ob = Inl e' \<and> \<not> is_Exception e' \<longrightarrow>
             JsonEncoder_default self ob = Inl e')"
  using assms by (simp add: JsonEncoder_default_def)

theorem last_resort_str_or_null_witness:
  "JsonEncoder_default JsonEncoder_self a_set = Inr (PStr (ascii ''{1, 2}''))
   \<and> JsonEncoder_default JsonEncoder_self broken_str_obj = Inr PNone
   \<and> iterencode (Suc (Suc 0)) compact_cfg 0 (PObj broken_str_obj) = Inr (ascii ''null'')
   \<and> JsonEncoder_default JsonEncoder_self interrupted_obj
        = Inl (NonException (ascii ''KeyboardInterrupt''))"
  using
    last_resort_str_or_null [where ob = a_set and self = JsonEncoder_self
      and e = "TypeError (ascii ''Object of type set is not JSON serializable'')"]
    last_resort_str_or_null [where ob = broken_str_obj and self = JsonEncoder_self
      and e = "TypeError (ascii ''Object of type Broken is not JSON serializable'')"
      and n = 0 and cfg = compact_cfg and lvl = 0]
    last_resort_str_or_null [where ob = interrupted_obj and self = JsonEncoder_self
      and e = "TypeError (ascii ''Object of type Slow is not JSON serializable'')"]
  by (simp add: a_set_def broken_str_obj_def interrupted_obj_def isinstance_temporal_def
      istraceback_def type_is_Exception_def isinstance_Exception_def type_is_type_def
      JsonEncoder_self_def JSONEncoder_default_def JsonEncoder_default_def ascii_def
      compact_cfg_def)

text \<open>
  Claim C6 as stated ("for any reason whatsoever") fails: \<open>except Exception\<close> does not
  catch a \<open>KeyboardInterrupt\<close> raised by \<open>str()\<close>.
\<close>

theorem last_resort_counterexample:
  "is_TypeError (TypeError (ascii ''Object of type Slow is not JSON serializable''))
   \<and> JSONEncoder_default interrupted_obj
       = Inl (TypeError (ascii ''Object of type Slow is not JSON serializable''))
   \<and> str interrupted_obj = Inl (NonException (ascii ''KeyboardInterrupt''))
   \<and> JsonEncoder_default JsonEncoder_self interrupted_obj \<noteq> Inr PNone
   \<and> JsonEncoder_default JsonEncoder_self interrupted_obj
       = Inl (NonException (ascii ''KeyboardInterrupt''))"
  by (simp add: JsonEncoder_default_def JsonEncoder_self_def JSONEncoder_default_def
      interrupted_obj_def isinstance_temporal_def istraceback_def type_is_Exception_def
      isinstance_Exception_def type_is_type_def ascii_def)









text \<open>
  Claim C10. For every other name the module's \<open>__getattr__\<close> raises
  \<open>AttributeError\<close> with a message naming the module and the attribute, and emits no
  warning.
\<close>

theorem other_attribute_error:
  "name \<noteq> ascii ''RESERVED_ATTRS'' \<Longrightarrow>
     module_getattr core_RESERVED_ATTRS module_name name emitted
       = (Inl (AttributeError (ascii ''module '' @ module_name
                               @ ascii '' has no attribute '' @ name)), emitted)"
  by (simp add: module_getattr_def)

theorem other_attribute_error_witness:
  "ascii ''VERSION'' \<noteq> ascii ''RESERVED_ATTRS''
   \<and> module_getattr (0::nat) (ascii ''pythonjsonlogger.json'') (ascii ''VERSION'') []
       = (Inl (AttributeError (ascii ''module pythonjsonlogger.json has no attribute VERSION'')), [])"
proof -
  have ne: "ascii ''VERSION'' \<noteq> ascii ''RESERVED_ATTRS''"
    by (simp add: ascii_def)
  from other_attribute_error [OF ne, of "0::nat" "ascii ''pythonjsonlogger.json''" "[]"] ne
  show ?thesis by (simp add: ascii_def)
qed


section \<open>Serialization with the default configuration\<close>










section \<open>Re-parsing the output of \<open>json.dumps\<close>\<close>

subsection \<open>Numbers\<close>

declare nat_repr.simps [simp del]










subsection \<open>Whitespace and literals\<close>





subsection \<open>Strings\<close>

































subsection \<open>Rendered text as tokens\<close>

lemma map_option_append:
  "map_option ((@) xs) (map_option ((@) ys) r) = map_option ((@) (xs @ ys)) r"
  by (cases r) simp_all

lemma map_option_Cons:
  "map_option ((#) x) (map_option ((@) ys) r) = map_option ((@) (x # ys)) r"
  by (cases r) simp_all












subsection \<open>Parsing the tokens\<close>










subsection \<open>Encoding as resolving, then rendering\<close>




lemma render_PList:
  "ws \<noteq> [] \<Longrightarrow> render cfg lvl (PList ws) = container cfg lvl 91 93 (map (render cfg (Suc lvl)) ws)"
  by simp



subsection \<open>Escaped output is ASCII\<close>













subsection \<open>Re-parsing what \<open>json.dumps\<close> returns\<close>





















end
